theory Spec2Isabelle
  imports Main "HOL-Library.Word"
begin

unbundle bit_operations_syntax

section \<open>The program representation the pass receives\<close>

text \<open>
  \<^verbatim>\<open>LocalValueNumbering.cpp\<close> is written against the host compiler's types
  (\<^verbatim>\<open>Function\<close>, \<^verbatim>\<open>PreservedAnalyses\<close>, \<^verbatim>\<open>FunctionPassManager\<close>,
  \<^verbatim>\<open>PassBuilder\<close>, \<^verbatim>\<open>PassPluginLibraryInfo\<close>). Their declarations are the
  host's headers, so they are modelled here at the granularity the source and the
  specification speak about: a function is an ordered list of basic blocks, a basic block
  an ordered list of instructions, an instruction an opcode with an ordered operand list
  and the name of its result, if it has one.
\<close>

datatype Opcode = Add | Sub | Mul | And | Or | Xor | Load | Store

datatype Value = Const "32 word" | Ref string

record Instruction =
  Result :: "string option"
  Op :: Opcode
  Operands :: "Value list"

record BasicBlock =
  Label :: string
  Instructions :: "Instruction list"

record Function =
  FunctionName :: string
  Args :: "string list"
  OptNone :: bool
  Blocks :: "BasicBlock list"

text \<open>
  The analysis manager is passed to \<^verbatim>\<open>run\<close> as an unnamed parameter and never
  queried, so one opaque value stands for it.
\<close>

datatype FunctionAnalysisManager = FunctionAnalysisManager

text \<open>
  What a pass reports back to the pass manager. The source names
  \<^verbatim>\<open>PreservedAnalyses::all()\<close>; the specification also speaks of the reports
  "none" and "only CFG-level analyses".
\<close>

datatype PreservedAnalyses =
  PreservedAnalyses_none
  | PreservedAnalyses_all
  | PreservedAnalyses_CFG

section \<open>The pass\<close>

text \<open>
  \<^verbatim>\<open>void visitor(Function &F) { /* TODO implement your algorithm here */ }\<close>

  The function is taken by reference and the body is empty: the function after the call
  is the function before it.
\<close>

definition visitor :: "Function \<Rightarrow> Function" where
  "visitor F = F"

text \<open>
  \<^verbatim>\<open>PreservedAnalyses run(Function &F, FunctionAnalysisManager &) {
      visitor(F);
      return PreservedAnalyses::all();
  }\<close>

  The mutation of \<^verbatim>\<open>F\<close> is made explicit: \<open>run\<close> returns the function as the
  call leaves it together with the report.
\<close>

definition run :: "Function \<Rightarrow> FunctionAnalysisManager \<Rightarrow> Function \<times> PreservedAnalyses" where
  "run F AM = (let F' = visitor F in (F', PreservedAnalyses_all))"

text \<open>\<^verbatim>\<open>static bool isRequired() { return true; }\<close>\<close>

definition isRequired :: bool where
  "isRequired = True"

section \<open>Registration with the host pipeline\<close>

text \<open>
  The pass manager stores passes type-erased: what it can do with a pass is call its
  \<^verbatim>\<open>run\<close> and ask \<^verbatim>\<open>isRequired\<close>. A function pass manager is the ordered
  list of the passes added to it; \<^verbatim>\<open>addPass\<close> appends.
\<close>

record Pass =
  PassRun :: "Function \<Rightarrow> FunctionAnalysisManager \<Rightarrow> Function \<times> PreservedAnalyses"
  PassIsRequired :: bool

type_synonym FunctionPassManager = "Pass list"

definition addPass :: "FunctionPassManager \<Rightarrow> Pass \<Rightarrow> FunctionPassManager" where
  "addPass FPM P = FPM @ [P]"

text \<open>The object \<^verbatim>\<open>LocalValueNumbering()\<close>: the struct has no fields.\<close>

definition LocalValueNumbering :: Pass where
  "LocalValueNumbering = \<lparr>PassRun = run, PassIsRequired = isRequired\<rparr>"

datatype PipelineElement =
  PipelineElement (ElementName: string) (InnerPipeline: "PipelineElement list")

text \<open>
  The inner lambda of \<^verbatim>\<open>getLocalValueNumberingPluginInfo\<close> (lines 36 to 43):
  \<^verbatim>\<open>[](StringRef Name, FunctionPassManager &FPM, ArrayRef<PassBuilder::PipelineElement>) {
      if (Name == "local-value-numbering") {
          FPM.addPass(LocalValueNumbering());
          return true;
      }
      return false;
  }\<close>
  It returns its result together with the pass manager as the call leaves it.
\<close>

definition pipelineParsingCallback ::
  "string \<Rightarrow> FunctionPassManager \<Rightarrow> PipelineElement list \<Rightarrow> bool \<times> FunctionPassManager" where
  "pipelineParsingCallback Name FPM Elements =
     (if Name = ''local-value-numbering''
      then (True, addPass FPM LocalValueNumbering)
      else (False, FPM))"

text \<open>
  The pass builder keeps the pipeline-parsing callbacks registered with it, in the order
  of registration.
\<close>

record PassBuilder =
  PipelineParsingCallbacks ::
    "(string \<Rightarrow> FunctionPassManager \<Rightarrow> PipelineElement list \<Rightarrow> bool \<times> FunctionPassManager) list"

definition registerPipelineParsingCallback ::
  "PassBuilder \<Rightarrow> (string \<Rightarrow> FunctionPassManager \<Rightarrow> PipelineElement list \<Rightarrow> bool \<times> FunctionPassManager)
     \<Rightarrow> PassBuilder" where
  "registerPipelineParsingCallback PB C =
     PB\<lparr>PipelineParsingCallbacks := PipelineParsingCallbacks PB @ [C]\<rparr>"

record PassPluginLibraryInfo =
  APIVersion :: "32 word"
  PluginName :: string
  PluginVersion :: string
  RegisterPassBuilderCallbacks :: "PassBuilder \<Rightarrow> PassBuilder"

text \<open>
  \<^verbatim>\<open>llvm::PassPluginLibraryInfo getLocalValueNumberingPluginInfo() {
      return {LLVM_PLUGIN_API_VERSION, "LocalValueNumbering", LLVM_VERSION_STRING,
              [](PassBuilder &PB) { PB.registerPipelineParsingCallback(...); }};
  }\<close>
  The macros \<^verbatim>\<open>LLVM_PLUGIN_API_VERSION\<close> and \<^verbatim>\<open>LLVM_VERSION_STRING\<close> come from the
  host's headers; they are parameters here.
\<close>

definition getLocalValueNumberingPluginInfo :: "32 word \<Rightarrow> string \<Rightarrow> PassPluginLibraryInfo" where
  "getLocalValueNumberingPluginInfo LLVM_PLUGIN_API_VERSION LLVM_VERSION_STRING =
     \<lparr>APIVersion = LLVM_PLUGIN_API_VERSION,
      PluginName = ''LocalValueNumbering'',
      PluginVersion = LLVM_VERSION_STRING,
      RegisterPassBuilderCallbacks =
        (\<lambda>PB. registerPipelineParsingCallback PB pipelineParsingCallback)\<rparr>"

text \<open>
  \<^verbatim>\<open>llvmGetPassPluginInfo() { return getLocalValueNumberingPluginInfo(); }\<close>
\<close>

definition llvmGetPassPluginInfo :: "32 word \<Rightarrow> string \<Rightarrow> PassPluginLibraryInfo" where
  "llvmGetPassPluginInfo LLVM_PLUGIN_API_VERSION LLVM_VERSION_STRING =
     getLocalValueNumberingPluginInfo LLVM_PLUGIN_API_VERSION LLVM_VERSION_STRING"

text \<open>
  The host's rule for functions marked \<^verbatim>\<open>optnone\<close>, as the comment above
  \<^verbatim>\<open>isRequired\<close> (lines 22 to 24) describes it: a pass is skipped for such a
  function unless its \<^verbatim>\<open>isRequired\<close> returns true. The rule itself is the host's
  code, not this repository's.
\<close>

definition skipped_for_optnone :: "Pass \<Rightarrow> Function \<Rightarrow> bool" where
  "skipped_for_optnone P F = (OptNone F \<and> \<not> PassIsRequired P)"

section \<open>Observations on blocks\<close>

text \<open>An instruction defines \<open>t\<close> when \<open>t\<close> names its result; it uses \<open>t\<close> when
  \<open>t\<close> is among its operands.\<close>

definition defines_result :: "string \<Rightarrow> Instruction \<Rightarrow> bool" where
  "defines_result t I = (Result I = Some t)"

definition uses_operand :: "string \<Rightarrow> Instruction \<Rightarrow> bool" where
  "uses_operand t I = (Ref t \<in> set (Operands I))"

text \<open>
  The number of instructions of a block that the block after the pass no longer holds.
  An instruction is recognised by the name of its result and its opcode, so that an
  instruction whose operands were redirected is still the same instruction. Instructions
  are counted with their multiplicity: each instruction of the block after the pass
  accounts for one instruction of the original block, and what is left of the original
  block is what the pass eliminated. Of two stores of which one is removed, one is
  counted.
\<close>

definition instruction_key :: "Instruction \<Rightarrow> string option \<times> Opcode" where
  "instruction_key I = (Result I, Op I)"

definition eliminated_count :: "BasicBlock \<Rightarrow> BasicBlock \<Rightarrow> nat" where
  "eliminated_count B B' =
     length (fold remove1 (map instruction_key (Instructions B'))
               (map instruction_key (Instructions B)))"

text \<open>
  That number for every block of the original function, in block order. A block that has
  no counterpart after the pass has lost all its instructions.
\<close>

fun eliminated_in_blocks :: "BasicBlock list \<Rightarrow> BasicBlock list \<Rightarrow> nat list" where
  "eliminated_in_blocks [] Bs' = []"
| "eliminated_in_blocks (B # Bs) [] = length (Instructions B) # eliminated_in_blocks Bs []"
| "eliminated_in_blocks (B # Bs) (B' # Bs') =
     eliminated_count B B' # eliminated_in_blocks Bs Bs'"

definition eliminated_per_block :: "Function \<Rightarrow> Function \<Rightarrow> nat list" where
  "eliminated_per_block F F' = eliminated_in_blocks (Blocks F) (Blocks F')"

section \<open>What a block computes\<close>

text \<open>
  A block maps the state it is entered with (the values of the names defined so far and
  the memory) to the state it leaves, or to nothing when an instruction is malformed or
  reads a name that has no value. Values are 32-bit integers; arithmetic wraps.
\<close>

record MachineState =
  Regs :: "string \<rightharpoonup> 32 word"
  Mem :: "32 word \<Rightarrow> 32 word"

fun eval_value :: "MachineState \<Rightarrow> Value \<Rightarrow> 32 word option" where
  "eval_value s (Const c) = Some c"
| "eval_value s (Ref n) = Regs s n"

fun arith :: "Opcode \<Rightarrow> 32 word \<Rightarrow> 32 word \<Rightarrow> 32 word option" where
  "arith Add x y = Some (x + y)"
| "arith Sub x y = Some (x - y)"
| "arith Mul x y = Some (x * y)"
| "arith And x y = Some (x AND y)"
| "arith Or x y = Some (x OR y)"
| "arith Xor x y = Some (x XOR y)"
| "arith Load x y = None"
| "arith Store x y = None"

definition exec_load :: "Value list \<Rightarrow> string option \<Rightarrow> MachineState \<Rightarrow> MachineState option" where
  "exec_load ops res s =
     (case (ops, res) of
        ([p], Some r) \<Rightarrow>
          (case eval_value s p of
             None \<Rightarrow> None
           | Some a \<Rightarrow> Some (s\<lparr>Regs := (Regs s)(r \<mapsto> Mem s a)\<rparr>))
      | _ \<Rightarrow> None)"

definition exec_store :: "Value list \<Rightarrow> string option \<Rightarrow> MachineState \<Rightarrow> MachineState option" where
  "exec_store ops res s =
     (case (ops, res) of
        ([x, p], None) \<Rightarrow>
          (case (eval_value s x, eval_value s p) of
             (Some v, Some a) \<Rightarrow> Some (s\<lparr>Mem := (Mem s)(a := v)\<rparr>)
           | _ \<Rightarrow> None)
      | _ \<Rightarrow> None)"

definition exec_arith ::
  "Opcode \<Rightarrow> Value list \<Rightarrow> string option \<Rightarrow> MachineState \<Rightarrow> MachineState option" where
  "exec_arith opc ops res s =
     (case (ops, res) of
        ([a, b], Some r) \<Rightarrow>
          (case (eval_value s a, eval_value s b) of
             (Some x, Some y) \<Rightarrow>
               (case arith opc x y of
                  None \<Rightarrow> None
                | Some v \<Rightarrow> Some (s\<lparr>Regs := (Regs s)(r \<mapsto> v)\<rparr>))
           | _ \<Rightarrow> None)
      | _ \<Rightarrow> None)"

definition exec_instr :: "Instruction \<Rightarrow> MachineState \<Rightarrow> MachineState option" where
  "exec_instr I s =
     (case Op I of
        Load \<Rightarrow> exec_load (Operands I) (Result I) s
      | Store \<Rightarrow> exec_store (Operands I) (Result I) s
      | opc \<Rightarrow> exec_arith opc (Operands I) (Result I) s)"

fun exec_instrs :: "Instruction list \<Rightarrow> MachineState \<Rightarrow> MachineState option" where
  "exec_instrs [] s = Some s"
| "exec_instrs (I # Is) s =
     (case exec_instr I s of None \<Rightarrow> None | Some s' \<Rightarrow> exec_instrs Is s')"

definition exec_block :: "BasicBlock \<Rightarrow> MachineState \<Rightarrow> MachineState option" where
  "exec_block B = exec_instrs (Instructions B)"

section \<open>Example inputs\<close>

definition add_instr :: "string \<Rightarrow> Value \<Rightarrow> Value \<Rightarrow> Instruction" where
  "add_instr t a b = \<lparr>Result = Some t, Op = Add, Operands = [a, b]\<rparr>"

definition mul_instr :: "string \<Rightarrow> Value \<Rightarrow> Value \<Rightarrow> Instruction" where
  "mul_instr t a b = \<lparr>Result = Some t, Op = Mul, Operands = [a, b]\<rparr>"

definition load_instr :: "string \<Rightarrow> Value \<Rightarrow> Instruction" where
  "load_instr t p = \<lparr>Result = Some t, Op = Load, Operands = [p]\<rparr>"

definition store_instr :: "Value \<Rightarrow> Value \<Rightarrow> Instruction" where
  "store_instr x p = \<lparr>Result = None, Op = Store, Operands = [x, p]\<rparr>"

text \<open>\<^verbatim>\<open>t1 = a + b; t2 = b + a; t3 = t1 * t2\<close> in one block.\<close>

definition commutative_example :: Function where
  "commutative_example =
     \<lparr>FunctionName = ''f'', Args = [''a'', ''b''], OptNone = False,
      Blocks = [\<lparr>Label = ''entry'',
                 Instructions =
                   [add_instr ''t1'' (Ref ''a'') (Ref ''b''),
                    add_instr ''t2'' (Ref ''b'') (Ref ''a''),
                    mul_instr ''t3'' (Ref ''t1'') (Ref ''t2'')]\<rparr>]\<rparr>"

text \<open>\<^verbatim>\<open>t1 = load p; store x, p; t2 = load p\<close> in one block.\<close>

definition aliasing_example :: Function where
  "aliasing_example =
     \<lparr>FunctionName = ''g'', Args = [''p'', ''x''], OptNone = True,
      Blocks = [\<lparr>Label = ''entry'',
                 Instructions =
                   [load_instr ''t1'' (Ref ''p''),
                    store_instr (Ref ''x'') (Ref ''p''),
                    load_instr ''t2'' (Ref ''p'')]\<rparr>]\<rparr>"

text \<open>A state in which \<open>a = 2\<close>, \<open>b = 3\<close>, \<open>p = 16\<close>, \<open>x = 7\<close> and memory holds zeros.\<close>

definition example_state :: MachineState where
  "example_state =
     \<lparr>Regs = [''a'' \<mapsto> 2, ''b'' \<mapsto> 3, ''p'' \<mapsto> 16, ''x'' \<mapsto> 7],
      Mem = (\<lambda>_. 0)\<rparr>"

section \<open>Basic facts\<close>

lemma visitor_id: "visitor F = F"
  by (simp add: visitor_def)

lemma run_function: "fst (run F AM) = F"
  by (simp add: run_def visitor_def)


lemma fold_remove1_same: "fold remove1 xs xs = []"
  by (induction xs) simp_all

lemma eliminated_count_same: "eliminated_count B B = 0"
  by (simp add: eliminated_count_def fold_remove1_same)

lemma eliminated_in_blocks_same:
  "eliminated_in_blocks Bs Bs = replicate (length Bs) 0"
  by (induction Bs) (simp_all add: eliminated_count_same)

lemma eliminated_per_block_same:
  "eliminated_per_block F F = replicate (length (Blocks F)) 0"
  by (simp add: eliminated_per_block_def eliminated_in_blocks_same)

text \<open>No run of the pass eliminates an instruction, in any block.\<close>

lemma run_eliminates_nothing:
  "list_all (\<lambda>n. n = 0) (eliminated_per_block F (fst (run F AM)))"
  by (simp add: run_function eliminated_per_block_same list_all_iff)


text \<open>
  The count sees what a transformation removes. Dropping the second addition of the first
  example and redirecting its use is one elimination; dropping one of two identical
  stores is one elimination; dropping every block of the first example eliminates its
  three instructions.
\<close>

lemma eliminated_count_sees_removed_instruction:
  "eliminated_per_block commutative_example
     (commutative_example\<lparr>Blocks :=
        [\<lparr>Label = ''entry'',
          Instructions =
            [add_instr ''t1'' (Ref ''a'') (Ref ''b''),
             mul_instr ''t3'' (Ref ''t1'') (Ref ''t1'')]\<rparr>]\<rparr>)
   = [1]"
  by (simp add: eliminated_per_block_def eliminated_count_def instruction_key_def
      commutative_example_def add_instr_def mul_instr_def)

lemma eliminated_count_sees_removed_duplicate:
  "eliminated_count
     \<lparr>Label = ''entry'',
      Instructions = [store_instr (Ref ''x'') (Ref ''p''), store_instr (Ref ''x'') (Ref ''p'')]\<rparr>
     \<lparr>Label = ''entry'', Instructions = [store_instr (Ref ''x'') (Ref ''p'')]\<rparr>
   = 1"
  by (simp add: eliminated_count_def instruction_key_def store_instr_def)

lemma eliminated_count_sees_removed_block:
  "eliminated_per_block commutative_example (commutative_example\<lparr>Blocks := []\<rparr>) = [3]"
  by (simp add: eliminated_per_block_def commutative_example_def)

text \<open>
  The block semantics at work: the first example computes \<open>t1 = t2 = 5\<close> and
  \<open>t3 = 25\<close>; in the second, the first load sees the old content of the cell and the
  second load sees the stored value.
\<close>

lemma exec_commutative_example:
  "map_option (\<lambda>s. (Regs s ''t1'', Regs s ''t2'', Regs s ''t3''))
     (exec_block (Blocks commutative_example ! 0) example_state)
   = Some (Some 5, Some 5, Some 25)"
  by (simp add: exec_block_def commutative_example_def example_state_def exec_instr_def
      exec_arith_def add_instr_def mul_instr_def)

lemma exec_aliasing_example:
  "map_option (\<lambda>s. (Regs s ''t1'', Regs s ''t2'', Mem s 16))
     (exec_block (Blocks aliasing_example ! 0) example_state)
   = Some (Some 0, Some 7, 7)"
  by (simp add: exec_block_def aliasing_example_def example_state_def exec_instr_def
      exec_load_def exec_store_def load_instr_def store_instr_def)

section \<open>What \<open>run\<close> reports\<close>

text \<open>
  C1, as the specification states it: for every function the pass is run on, \<open>run\<close>
  reports that it preserves no analyses. The source returns
  \<^verbatim>\<open>PreservedAnalyses::all()\<close>, so on the example function the report is not "none".
\<close>

theorem run_reports_none_counterexample:
  "snd (run commutative_example FunctionAnalysisManager) \<noteq> PreservedAnalyses_none"
  by (simp add: run_def)

text \<open>
  C1, amended: for every function the pass is run on, \<open>run\<close> reports that it
  preserves all analyses.
\<close>

theorem run_reports_all_preserved:
  "snd (run F AM) = PreservedAnalyses_all"
  by (simp add: run_def)



section \<open>What \<open>run\<close> does to the function\<close>

text \<open>
  C4: for every function \<open>F\<close>, invoking \<open>run\<close> leaves \<open>F\<close> entirely unchanged: the
  function after the call equals the function before it, so it has the same blocks, each
  with the same instructions in the same order, each instruction with the same opcode,
  operands and result.
\<close>

theorem run_leaves_function_unchanged:
  "fst (run F AM) = F
   \<and> Blocks (fst (run F AM)) = Blocks F
   \<and> map Instructions (Blocks (fst (run F AM))) = map Instructions (Blocks F)"
  by (simp add: run_def visitor_def)

text \<open>
  C7: running the pass is idempotent: for every function, applying \<open>run\<close> to the
  result of \<open>run\<close> gives the same function as applying it once.
\<close>

theorem run_idempotent:
  "fst (run (fst (run F AM)) AM') = fst (run F AM)"
  by (simp add: run_def visitor_def)

text \<open>
  C5: for every basic block, the block after the pass computes the same mapping from
  entry states to exit states as the original block. It holds for every instruction,
  whether or not it touches memory: the function after the pass has as many blocks as
  before, and block by block the same state transformer.
\<close>

theorem run_preserves_block_semantics:
  "map exec_block (Blocks (fst (run F AM))) = map exec_block (Blocks F)
   \<and> exec_block (Blocks (fst (run F AM)) ! i) s = exec_block (Blocks F ! i) s"
  by (simp add: run_def visitor_def)

section \<open>The specification's two example blocks\<close>

text \<open>
  C2, as the specification states it: for every basic block containing
  \<^verbatim>\<open>t1 = a + b; t2 = b + a;\<close> followed by uses of both, running the pass eliminates
  the instruction defining \<open>t2\<close> and redirects every use of \<open>t2\<close> to \<open>t1\<close>. On the
  example function the block after the pass still has the instruction that defines
  \<open>t2\<close>, and still has an instruction with \<open>t2\<close> as an operand.
\<close>

theorem commutative_pair_not_folded_counterexample:
  "list_ex (defines_result ''t2'')
     (Instructions (Blocks (fst (run commutative_example FunctionAnalysisManager)) ! 0))
   \<and> list_ex (uses_operand ''t2'')
     (Instructions (Blocks (fst (run commutative_example FunctionAnalysisManager)) ! 0))"
  by (simp add: run_def visitor_def commutative_example_def defines_result_def
      uses_operand_def add_instr_def mul_instr_def)

text \<open>
  C2, amended: for every basic block containing \<^verbatim>\<open>t1 = a + b; t2 = b + a;\<close>
  followed by uses of both \<open>t1\<close> and \<open>t2\<close>, running the pass leaves the block as it
  is: the instruction defining \<open>t2\<close> is kept and the uses of \<open>t2\<close> still refer to
  \<open>t2\<close>.
\<close>

theorem commutative_pair_kept:
  assumes "i < length (Blocks F)"
    and "Instructions (Blocks F ! i) = pre @ [add_instr t1 a b, add_instr t2 b a] @ post"
    and "list_ex (uses_operand t1) post"
    and "list_ex (uses_operand t2) post"
  shows "Instructions (Blocks (fst (run F AM)) ! i)
           = pre @ [add_instr t1 a b, add_instr t2 b a] @ post
         \<and> list_ex (defines_result t2) (Instructions (Blocks (fst (run F AM)) ! i))
         \<and> list_ex (uses_operand t2) (Instructions (Blocks (fst (run F AM)) ! i))"
proof -
  have same: "Instructions (Blocks (fst (run F AM)) ! i) = Instructions (Blocks F ! i)"
    by (simp add: run_function)
  have "defines_result t2 (add_instr t2 b a)"
    by (simp add: defines_result_def add_instr_def)
  then have def: "list_ex (defines_result t2) (Instructions (Blocks F ! i))"
    using assms(2) by simp
  have use: "list_ex (uses_operand t2) (Instructions (Blocks F ! i))"
    using assms(2) assms(4) by simp
  from same def use assms(2) show ?thesis by simp
qed

theorem commutative_pair_kept_witness:
  "0 < length (Blocks commutative_example)
   \<and> Instructions (Blocks commutative_example ! 0)
       = [] @ [add_instr ''t1'' (Ref ''a'') (Ref ''b''),
               add_instr ''t2'' (Ref ''b'') (Ref ''a'')]
            @ [mul_instr ''t3'' (Ref ''t1'') (Ref ''t2'')]
   \<and> list_ex (uses_operand ''t1'') [mul_instr ''t3'' (Ref ''t1'') (Ref ''t2'')]
   \<and> list_ex (uses_operand ''t2'') [mul_instr ''t3'' (Ref ''t1'') (Ref ''t2'')]
   \<and> Instructions (Blocks (fst (run commutative_example FunctionAnalysisManager)) ! 0)
       = [add_instr ''t1'' (Ref ''a'') (Ref ''b''),
          add_instr ''t2'' (Ref ''b'') (Ref ''a''),
          mul_instr ''t3'' (Ref ''t1'') (Ref ''t2'')]"
proof -
  have h1: "0 < length (Blocks commutative_example)"
    by (simp add: commutative_example_def)
  have h2: "Instructions (Blocks commutative_example ! 0)
       = [] @ [add_instr ''t1'' (Ref ''a'') (Ref ''b''),
               add_instr ''t2'' (Ref ''b'') (Ref ''a'')]
            @ [mul_instr ''t3'' (Ref ''t1'') (Ref ''t2'')]"
    by (simp add: commutative_example_def)
  have h3: "list_ex (uses_operand ''t1'') [mul_instr ''t3'' (Ref ''t1'') (Ref ''t2'')]"
    by (simp add: uses_operand_def mul_instr_def)
  have h4: "list_ex (uses_operand ''t2'') [mul_instr ''t3'' (Ref ''t1'') (Ref ''t2'')]"
    by (simp add: uses_operand_def mul_instr_def)
  from commutative_pair_kept [OF h1 h2 h3 h4, of FunctionAnalysisManager]
  have "Instructions (Blocks (fst (run commutative_example FunctionAnalysisManager)) ! 0)
       = [add_instr ''t1'' (Ref ''a'') (Ref ''b''),
          add_instr ''t2'' (Ref ''b'') (Ref ''a''),
          mul_instr ''t3'' (Ref ''t1'') (Ref ''t2'')]"
    by simp
  with h1 h2 h3 h4 show ?thesis by simp
qed

text \<open>
  C6: for every basic block containing \<^verbatim>\<open>t1 = load p; store x, p; t2 = load p;\<close>,
  running the pass does not eliminate the second load: the instruction defining \<open>t2\<close>
  is in the block after the pass, and the three instructions stand where they stood.
\<close>

theorem second_load_not_eliminated:
  assumes "i < length (Blocks F)"
    and "Instructions (Blocks F ! i)
           = pre @ [load_instr t1 p, store_instr x p, load_instr t2 p] @ post"
  shows "load_instr t2 p \<in> set (Instructions (Blocks (fst (run F AM)) ! i))
         \<and> Instructions (Blocks (fst (run F AM)) ! i)
           = pre @ [load_instr t1 p, store_instr x p, load_instr t2 p] @ post"
proof -
  have "Instructions (Blocks (fst (run F AM)) ! i) = Instructions (Blocks F ! i)"
    by (simp add: run_function)
  with assms(2) show ?thesis by simp
qed

theorem second_load_not_eliminated_witness:
  "0 < length (Blocks aliasing_example)
   \<and> Instructions (Blocks aliasing_example ! 0)
       = [] @ [load_instr ''t1'' (Ref ''p''), store_instr (Ref ''x'') (Ref ''p''),
               load_instr ''t2'' (Ref ''p'')] @ []
   \<and> load_instr ''t2'' (Ref ''p'')
       \<in> set (Instructions (Blocks (fst (run aliasing_example FunctionAnalysisManager)) ! 0))"
proof -
  have h1: "0 < length (Blocks aliasing_example)"
    by (simp add: aliasing_example_def)
  have h2: "Instructions (Blocks aliasing_example ! 0)
       = [] @ [load_instr ''t1'' (Ref ''p''), store_instr (Ref ''x'') (Ref ''p''),
               load_instr ''t2'' (Ref ''p'')] @ []"
    by (simp add: aliasing_example_def)
  from second_load_not_eliminated [OF h1 h2, of FunctionAnalysisManager]
  have "load_instr ''t2'' (Ref ''p'')
       \<in> set (Instructions (Blocks (fst (run aliasing_example FunctionAnalysisManager)) ! 0))"
    by blast
  with h1 h2 show ?thesis by blast
qed

section \<open>Registration\<close>

text \<open>
  C8: the pass is always required to execute: \<open>isRequired\<close> returns true, so the pass
  is not skipped for a function marked \<^verbatim>\<open>optnone\<close>.
\<close>

theorem pass_is_required:
  "isRequired = True
   \<and> PassIsRequired LocalValueNumbering
   \<and> \<not> skipped_for_optnone LocalValueNumbering F"
  by (simp add: isRequired_def LocalValueNumbering_def skipped_for_optnone_def)

text \<open>
  The second example function is marked \<^verbatim>\<open>optnone\<close>: the pass is not skipped for
  it, and a pass that differs only in not being required would be.
\<close>

lemma pass_runs_on_optnone_example:
  "OptNone aliasing_example \<and> \<not> skipped_for_optnone LocalValueNumbering aliasing_example"
  by (simp add: aliasing_example_def isRequired_def LocalValueNumbering_def
      skipped_for_optnone_def)

lemma optional_pass_skipped_on_optnone_example:
  "skipped_for_optnone (LocalValueNumbering\<lparr>PassIsRequired := False\<rparr>) aliasing_example"
  by (simp add: aliasing_example_def skipped_for_optnone_def)

text \<open>
  C9: for every pipeline element name, the pipeline-parsing callback adds the
  LocalValueNumbering pass to the function pass manager and returns true if and only if
  the name equals \<^verbatim>\<open>"local-value-numbering"\<close>; for any other name it adds nothing
  and returns false.
\<close>

theorem callback_accepts_only_its_name:
  "(Name = ''local-value-numbering''
      \<longrightarrow> pipelineParsingCallback Name FPM Elements = (True, FPM @ [LocalValueNumbering]))
   \<and> (Name \<noteq> ''local-value-numbering''
      \<longrightarrow> pipelineParsingCallback Name FPM Elements = (False, FPM))
   \<and> (fst (pipelineParsingCallback Name FPM Elements) \<longleftrightarrow> Name = ''local-value-numbering'')"
  by (simp add: pipelineParsingCallback_def addPass_def)

theorem callback_accepts_only_its_name_witness:
  "pipelineParsingCallback ''local-value-numbering'' [] [] = (True, [LocalValueNumbering])
   \<and> pipelineParsingCallback ''local-value-numberin'' [LocalValueNumbering] []
       = (False, [LocalValueNumbering])"
proof -
  have n: "''local-value-numberin'' \<noteq> ''local-value-numbering''" by simp
  from callback_accepts_only_its_name [of "''local-value-numbering''" "[]" "[]"]
  have a: "pipelineParsingCallback ''local-value-numbering'' [] [] = (True, [LocalValueNumbering])"
    by simp
  from callback_accepts_only_its_name [of "''local-value-numberin''" "[LocalValueNumbering]" "[]"] n
  have b: "pipelineParsingCallback ''local-value-numberin'' [LocalValueNumbering] []
       = (False, [LocalValueNumbering])"
    by blast
  from a b show ?thesis by simp
qed

text \<open>
  C10: the exported entry point \<open>llvmGetPassPluginInfo\<close> returns exactly the value of
  \<open>getLocalValueNumberingPluginInfo\<close>: a record whose API version is
  \<^verbatim>\<open>LLVM_PLUGIN_API_VERSION\<close> and whose plugin name is \<^verbatim>\<open>"LocalValueNumbering"\<close>.
\<close>

theorem plugin_entry_point_info:
  "llvmGetPassPluginInfo LLVM_PLUGIN_API_VERSION LLVM_VERSION_STRING
     = getLocalValueNumberingPluginInfo LLVM_PLUGIN_API_VERSION LLVM_VERSION_STRING
   \<and> APIVersion (llvmGetPassPluginInfo LLVM_PLUGIN_API_VERSION LLVM_VERSION_STRING)
     = LLVM_PLUGIN_API_VERSION
   \<and> PluginName (llvmGetPassPluginInfo LLVM_PLUGIN_API_VERSION LLVM_VERSION_STRING)
     = ''LocalValueNumbering''"
  by (simp add: llvmGetPassPluginInfo_def getLocalValueNumberingPluginInfo_def)

text \<open>
  Applied to a pass builder with no callbacks, the record's registration function leaves
  it with exactly the callback above.
\<close>

lemma plugin_registers_callback:
  "PipelineParsingCallbacks
     (RegisterPassBuilderCallbacks
        (llvmGetPassPluginInfo LLVM_PLUGIN_API_VERSION LLVM_VERSION_STRING)
        \<lparr>PipelineParsingCallbacks = []\<rparr>)
   = [pipelineParsingCallback]"
  by (simp add: llvmGetPassPluginInfo_def getLocalValueNumberingPluginInfo_def
      registerPipelineParsingCallback_def)

end
